theory Spec2Isabelle
  imports Main
begin

section \<open>The blog application of main.py\<close>

text \<open>
  A shallow embedding of \<^verbatim>\<open>main.py\<close>: the two tables, the session slot kept by
  flask-login, the decorator \<^verbatim>\<open>admin_or_author\<close> and the view functions, each as a
  function from the database and the caller's session to a result holding the database
  and the session afterwards, the flashed messages and the response.

  Outside the model, as parameters: the form classes of \<^verbatim>\<open>forms.py\<close> (the value of
  \<^verbatim>\<open>validate_on_submit()\<close> is an argument of each view), the hashing primitives of
  werkzeug, the calendar date, and what the database library does with the database
  URI at startup. Column lengths (\<^verbatim>\<open>String(250)\<close>) are left to the storage engine and
  are not modelled.
\<close>

subsection \<open>Tables\<close>

text \<open>\<^verbatim>\<open>class User\<close> (lines 40 to 50) and \<^verbatim>\<open>class BlogPost\<close> (lines 53 to 65). The
  primary keys are \<open>u_id\<close> and \<open>p_id\<close> (\<^verbatim>\<open>id\<close> in the source).\<close>

record user =
  u_id :: int
  username :: string
  email :: string
  password :: string

record blog_post =
  p_id :: int
  user_id :: int
  title :: string
  subtitle :: string
  date :: string
  body :: string
  img_url :: string

record db =
  users :: "user list"
  posts :: "blog_post list"

definition empty_db :: db where
  "empty_db = \<lparr>users = [], posts = []\<rparr>"

text \<open>The next value of an integer primary key.\<close>

definition next_id :: "int list \<Rightarrow> int" where
  "next_id ks = fold max ks 0 + 1"

subsection \<open>Exceptions, responses, results\<close>

datatype exn =
    AttributeError
  | IntegrityError
  | MultipleResultsFound
  | RuntimeError
  | OverflowError
  | ArgumentError
  | OperationalError

text \<open>\<open>Render t\<close> is \<^verbatim>\<open>render_template(t)\<close>, \<open>Redirect e a\<close> is
  \<^verbatim>\<open>redirect(url_for(e, post_id=a))\<close>, \<open>Abort c\<close> is \<^verbatim>\<open>abort(c)\<close>, and
  \<open>Unhandled x\<close> is an exception that leaves the view (HTTP 500).\<close>

datatype response =
    Render string
  | Redirect string "int option"
  | Abort nat
  | Unhandled exn

text \<open>The session holds the id that \<^verbatim>\<open>login_user\<close> stored, if any.\<close>

type_synonym session = "int option"

record result =
  new_db :: db
  new_session :: session
  flashes :: "(string \<times> string) list"
  response :: response

definition respond :: "db \<Rightarrow> session \<Rightarrow> response \<Rightarrow> result" where
  "respond d s r = \<lparr>new_db = d, new_session = s, flashes = [], response = r\<rparr>"

definition flash :: "string \<Rightarrow> string \<Rightarrow> result \<Rightarrow> result" where
  "flash message category r = r\<lparr>flashes := (message, category) # flashes r\<rparr>"

subsection \<open>The current user\<close>

text \<open>A Python object that \<^verbatim>\<open>current_user\<close> or a literal of the source can denote.\<close>

datatype pyobj = UserObj user | AnonymousUser | IntObj int

fun is_authenticated :: "pyobj \<Rightarrow> bool" where
  "is_authenticated (UserObj u) = True"
| "is_authenticated AnonymousUser = False"
| "is_authenticated (IntObj n) = False"

text \<open>The attribute \<^verbatim>\<open>.id\<close>; only a \<^verbatim>\<open>User\<close> has one.\<close>

fun attr_id :: "pyobj \<Rightarrow> int option" where
  "attr_id (UserObj u) = Some (u_id u)"
| "attr_id AnonymousUser = None"
| "attr_id (IntObj n) = None"

text \<open>Python's \<^verbatim>\<open>!=\<close>. \<^verbatim>\<open>UserMixin.__ne__\<close> compares \<^verbatim>\<open>get_id()\<close> with another
  \<^verbatim>\<open>UserMixin\<close> and returns \<^verbatim>\<open>NotImplemented\<close> for anything else; integers compare
  with integers; where both sides decline, Python compares identities, and two distinct
  objects are unequal.\<close>

fun py_ne :: "pyobj \<Rightarrow> pyobj \<Rightarrow> bool" where
  "py_ne (UserObj a) (UserObj b) = (u_id a \<noteq> u_id b)"
| "py_ne (IntObj m) (IntObj n) = (m \<noteq> n)"
| "py_ne AnonymousUser AnonymousUser = False"
| "py_ne a b = True"

text \<open>\<^verbatim>\<open>load_user\<close> (lines 68 to 70): \<^verbatim>\<open>db.session.get(User, int(user_id))\<close>.\<close>

definition load_user :: "db \<Rightarrow> int \<Rightarrow> user option" where
  "load_user d i = find (\<lambda>u. u_id u = i) (users d)"

text \<open>flask-login's \<^verbatim>\<open>current_user\<close>: the user loaded from the session's id, the
  anonymous user when the session has none or the loader finds none.\<close>

definition current_user :: "db \<Rightarrow> session \<Rightarrow> pyobj" where
  "current_user d s =
     (case s of
        None \<Rightarrow> AnonymousUser
      | Some i \<Rightarrow> (case load_user d i of None \<Rightarrow> AnonymousUser | Some u \<Rightarrow> UserObj u))"

text \<open>\<^verbatim>\<open>login_user(user)\<close> stores the user's id in the session.\<close>

definition login_user :: "user \<Rightarrow> session" where
  "login_user u = Some (u_id u)"

subsection \<open>Queries\<close>

text \<open>The integers that the store takes as a query parameter: the database is the
  SQLite file of line 31, whose integers are signed and 64 bits wide. Python's integers
  are unbounded, and the converter \<^verbatim>\<open><int:post_id>\<close> of the routes takes any run of
  digits.\<close>

definition sqlite_integer :: "int \<Rightarrow> bool" where
  "sqlite_integer i = (- (2 ^ 63) \<le> i \<and> i < 2 ^ 63)"

text \<open>\<^verbatim>\<open>db.get_or_404(BlogPost, post_id)\<close>: the row with that primary key, or
  \<^verbatim>\<open>abort(404)\<close>. The query binds \<^verbatim>\<open>post_id\<close>; an integer outside the store's range
  raises \<^verbatim>\<open>OverflowError\<close> there, which no view handles.\<close>

definition get_or_404 :: "db \<Rightarrow> int \<Rightarrow> response + blog_post" where
  "get_or_404 d post_id =
     (if sqlite_integer post_id then
        (case find (\<lambda>p. p_id p = post_id) (posts d) of
           None \<Rightarrow> Inl (Abort 404)
         | Some p \<Rightarrow> Inr p)
      else Inl (Unhandled OverflowError))"

text \<open>\<^verbatim>\<open>select(User).where(User.email == email)\<close>.\<close>

definition select_user_by_email :: "db \<Rightarrow> string \<Rightarrow> user list" where
  "select_user_by_email d e = filter (\<lambda>u. email u = e) (users d)"

text \<open>\<^verbatim>\<open>.scalar_one_or_none()\<close> raises on more than one row; \<^verbatim>\<open>.scalar()\<close> takes the
  first row, if any.\<close>

fun scalar_one_or_none :: "'a list \<Rightarrow> exn + 'a option" where
  "scalar_one_or_none [] = Inr None"
| "scalar_one_or_none [x] = Inr (Some x)"
| "scalar_one_or_none (x # y # zs) = Inl MultipleResultsFound"

fun scalar :: "'a list \<Rightarrow> 'a option" where
  "scalar [] = None"
| "scalar (x # xs) = Some x"

text \<open>The relationship \<^verbatim>\<open>post.author\<close>: the user that \<^verbatim>\<open>user_id\<close> refers to.\<close>

definition author :: "db \<Rightarrow> blog_post \<Rightarrow> user option" where
  "author d p = find (\<lambda>u. u_id u = user_id p) (users d)"

subsection \<open>Parameters\<close>

text \<open>The hashing primitives of werkzeug and the formatted date of the day.\<close>

record ext =
  generate_password_hash :: "string \<Rightarrow> string"
  check_password_hash :: "string \<Rightarrow> string \<Rightarrow> bool"
  today :: string

text \<open>The fields of \<^verbatim>\<open>CreatePostForm\<close> that the views read.\<close>

record post_form =
  f_title :: string
  f_subtitle :: string
  f_body :: string
  f_img_url :: string

subsection \<open>Decorators\<close>

text \<open>\<^verbatim>\<open>admin_or_author\<close> (lines 73 to 81). The post is fetched first; the condition of
  line 77 is written as in the source, \<^verbatim>\<open>or\<close> and \<^verbatim>\<open>and\<close> evaluating their right
  side only when needed.\<close>

definition admin_or_author ::
  "(db \<Rightarrow> session \<Rightarrow> int \<Rightarrow> 'a \<Rightarrow> result) \<Rightarrow> db \<Rightarrow> session \<Rightarrow> int \<Rightarrow> 'a \<Rightarrow> result" where
  "admin_or_author f d s post_id args =
     (case get_or_404 d post_id of
        Inl r \<Rightarrow> respond d s r
      | Inr post \<Rightarrow>
          if \<not> is_authenticated (current_user d s)
             \<or> (py_ne (current_user d s) (IntObj 1)
                 \<and> attr_id (current_user d s) \<noteq> Some (user_id post))
          then respond d s (Abort 403)
          else f d s post_id args)"

text \<open>flask-login's \<^verbatim>\<open>login_required\<close>: an unauthenticated caller is sent to
  \<^verbatim>\<open>login_manager.login_view\<close> (line 36) with the library's message.\<close>

definition login_required ::
  "(db \<Rightarrow> session \<Rightarrow> 'a \<Rightarrow> result) \<Rightarrow> db \<Rightarrow> session \<Rightarrow> 'a \<Rightarrow> result" where
  "login_required f d s args =
     (if is_authenticated (current_user d s) then f d s args
      else flash ''Please log in to access this page.'' ''message''
             (respond d s (Redirect ''login'' None)))"

subsection \<open>Views\<close>

text \<open>\<^verbatim>\<open>get_all_posts\<close> (lines 88 to 93).\<close>

definition get_all_posts :: "db \<Rightarrow> session \<Rightarrow> result" where
  "get_all_posts d s = respond d s (Render ''index.html'')"

text \<open>\<^verbatim>\<open>login\<close> (lines 96 to 111). \<open>valid\<close> is \<^verbatim>\<open>form.validate_on_submit()\<close>.\<close>

definition login :: "ext \<Rightarrow> db \<Rightarrow> session \<Rightarrow> bool \<Rightarrow> string \<Rightarrow> string \<Rightarrow> result" where
  "login x d s valid e pw =
     (if valid then
        (case scalar_one_or_none (select_user_by_email d e) of
           Inl err \<Rightarrow> respond d s (Unhandled err)
         | Inr (Some u) \<Rightarrow>
             if check_password_hash x (password u) pw
             then respond d (login_user u) (Redirect ''get_all_posts'' None)
             else flash ''Incorrect Password!'' ''danger''
                    (respond d s (Render ''login.html''))
         | Inr None \<Rightarrow>
             flash ''Email doesn't exist !'' ''danger''
               (respond d s (Redirect ''register'' None)))
      else respond d s (Render ''login.html''))"

text \<open>\<^verbatim>\<open>register\<close> (lines 114 to 134).\<close>

definition register :: "ext \<Rightarrow> db \<Rightarrow> session \<Rightarrow> bool \<Rightarrow> string \<Rightarrow> string \<Rightarrow> string \<Rightarrow> result" where
  "register x d s valid name e pw =
     (if valid then
        (case scalar (select_user_by_email d e) of
           Some email_exist \<Rightarrow>
             flash ''Already Logged in'' ''danger'' (respond d s (Redirect ''login'' None))
         | None \<Rightarrow>
             (let new_user = \<lparr>u_id = next_id (map u_id (users d)), username = name,
                              email = e, password = generate_password_hash x pw\<rparr>
              in respond (d\<lparr>users := users d @ [new_user]\<rparr>) (login_user new_user)
                   (Redirect ''get_all_posts'' None)))
      else respond d s (Render ''register.html''))"

text \<open>\<^verbatim>\<open>logout\<close> (lines 137 to 140).\<close>

definition logout :: "db \<Rightarrow> session \<Rightarrow> result" where
  "logout d s = respond d None (Redirect ''get_all_posts'' None)"

text \<open>\<^verbatim>\<open>show_post\<close> (lines 143 to 146).\<close>

definition show_post :: "db \<Rightarrow> session \<Rightarrow> int \<Rightarrow> result" where
  "show_post d s post_id =
     (case get_or_404 d post_id of
        Inl r \<Rightarrow> respond d s r
      | Inr requested_post \<Rightarrow> respond d s (Render ''post.html''))"

text \<open>\<^verbatim>\<open>add_new_post\<close> (lines 151 to 165). Assigning the anonymous user to the
  relationship \<^verbatim>\<open>author\<close> raises (it is no mapped instance); the commit raises when the
  title is that of a stored post (\<^verbatim>\<open>unique=True\<close>, line 60), and writes nothing.\<close>

definition add_new_post :: "ext \<Rightarrow> db \<Rightarrow> session \<Rightarrow> bool \<times> post_form \<Rightarrow> result" where
  "add_new_post x d s args =
     (case args of (valid, form) \<Rightarrow>
        if valid then
          (case current_user d s of
             UserObj u \<Rightarrow>
               if \<exists>p \<in> set (posts d). title p = f_title form
               then respond d s (Unhandled IntegrityError)
               else
                 (let new_post = \<lparr>p_id = next_id (map p_id (posts d)), user_id = u_id u,
                                   title = f_title form, subtitle = f_subtitle form,
                                   date = today x, body = f_body form,
                                   img_url = f_img_url form\<rparr>
                  in respond (d\<lparr>posts := posts d @ [new_post]\<rparr>) s
                       (Redirect ''get_all_posts'' None))
           | _ \<Rightarrow> respond d s (Unhandled AttributeError))
        else respond d s (Render ''make-post.html''))"

text \<open>\<^verbatim>\<open>edit_post\<close> (lines 171 to 188), the function under the decorator. Building the
  form reads \<^verbatim>\<open>post.author.username\<close>, which raises when the post has no author; the
  commit raises when another post has the submitted title.\<close>

definition edit_post :: "db \<Rightarrow> session \<Rightarrow> int \<Rightarrow> bool \<times> post_form \<Rightarrow> result" where
  "edit_post d s post_id args =
     (case args of (valid, edit_form) \<Rightarrow>
        (case get_or_404 d post_id of
           Inl r \<Rightarrow> respond d s r
         | Inr post \<Rightarrow>
             (case author d post of
                None \<Rightarrow> respond d s (Unhandled AttributeError)
              | Some a \<Rightarrow>
                  if valid then
                    (case current_user d s of
                       UserObj u \<Rightarrow>
                         if \<exists>q \<in> set (posts d). p_id q \<noteq> post_id \<and> title q = f_title edit_form
                         then respond d s (Unhandled IntegrityError)
                         else
                           respond
                             (d\<lparr>posts := map (\<lambda>q. if p_id q = post_id
                                   then q\<lparr>title := f_title edit_form,
                                          subtitle := f_subtitle edit_form,
                                          img_url := f_img_url edit_form,
                                          user_id := u_id u,
                                          body := f_body edit_form\<rparr>
                                   else q) (posts d)\<rparr>)
                             s (Redirect ''show_post'' (Some post_id))
                     | _ \<Rightarrow> respond d s (Unhandled AttributeError))
                  else respond d s (Render ''make-post.html''))))"

text \<open>\<^verbatim>\<open>delete_post\<close> (lines 193 to 198), the function under the decorator.\<close>

definition delete_post :: "db \<Rightarrow> session \<Rightarrow> int \<Rightarrow> unit \<Rightarrow> result" where
  "delete_post d s post_id args =
     (case get_or_404 d post_id of
        Inl r \<Rightarrow> respond d s r
      | Inr post_to_delete \<Rightarrow>
          respond (d\<lparr>posts := filter (\<lambda>q. p_id q \<noteq> post_id) (posts d)\<rparr>) s
            (Redirect ''get_all_posts'' None))"

text \<open>\<^verbatim>\<open>about\<close> and \<^verbatim>\<open>contact\<close> (lines 201 to 208).\<close>

definition about :: "db \<Rightarrow> session \<Rightarrow> result" where
  "about d s = respond d s (Render ''about.html'')"

definition contact :: "db \<Rightarrow> session \<Rightarrow> result" where
  "contact d s = respond d s (Render ''contact.html'')"

subsection \<open>Routes\<close>

text \<open>A request names a route and carries what the view reads from it.\<close>

datatype request =
    Index
  | Login bool string string
  | Register bool string string string
  | Logout
  | Show_post int
  | New_post bool post_form
  | Edit_post int bool post_form
  | Delete int
  | About
  | Contact

text \<open>The view that \<^verbatim>\<open>app.route\<close> registered for each rule. Decorators apply from the
  bottom up: at lines 149 and 168 \<^verbatim>\<open>login_required\<close> stands above \<^verbatim>\<open>app.route\<close>, so
  the route holds the function as it is below \<^verbatim>\<open>app.route\<close>, and the function wrapped
  by \<^verbatim>\<open>login_required\<close> is only bound to the module's name.\<close>

fun dispatch :: "ext \<Rightarrow> db \<Rightarrow> session \<Rightarrow> request \<Rightarrow> result" where
  "dispatch x d s Index = get_all_posts d s"
| "dispatch x d s (Login valid e pw) = login x d s valid e pw"
| "dispatch x d s (Register valid name e pw) = register x d s valid name e pw"
| "dispatch x d s Logout = logout d s"
| "dispatch x d s (Show_post post_id) = show_post d s post_id"
| "dispatch x d s (New_post valid form) = add_new_post x d s (valid, form)"
| "dispatch x d s (Edit_post post_id valid form) =
     admin_or_author edit_post d s post_id (valid, form)"
| "dispatch x d s (Delete post_id) = admin_or_author delete_post d s post_id ()"
| "dispatch x d s About = about d s"
| "dispatch x d s Contact = contact d s"

text \<open>A run of the application: each request comes with its own session and
  parameters; the database is handed from one request to the next.\<close>

fun run :: "db \<Rightarrow> (ext \<times> session \<times> request) list \<Rightarrow> db" where
  "run d [] = d"
| "run d ((x, s, rq) # rest) = run (new_db (dispatch x d s rq)) rest"

subsection \<open>Removing a user\<close>

text \<open>No view of \<^verbatim>\<open>main.py\<close> removes a \<^verbatim>\<open>User\<close>. The relationship
  \<^verbatim>\<open>User.blog_posts\<close> (line 47) is declared with \<^verbatim>\<open>cascade="all, delete"\<close>: when
  the ORM deletes a user (\<^verbatim>\<open>db.session.delete(user)\<close>), it deletes the posts of that
  relationship with it, which are the rows whose \<^verbatim>\<open>user_id\<close> is the user's id.\<close>

definition delete_user :: "db \<Rightarrow> int \<Rightarrow> db" where
  "delete_user d i =
     \<lparr>users = filter (\<lambda>u. u_id u \<noteq> i) (users d),
      posts = filter (\<lambda>p. user_id p \<noteq> i) (posts d)\<rparr>"

text \<open>Every post's \<^verbatim>\<open>user_id\<close> is the id of a stored user.\<close>

definition no_orphans :: "db \<Rightarrow> bool" where
  "no_orphans d = (\<forall>p \<in> set (posts d). \<exists>u \<in> set (users d). u_id u = user_id p)"

subsection \<open>Startup\<close>

text \<open>Lines 16 to 36. The process environment, after \<^verbatim>\<open>load_dotenv()\<close>, is a list of
  names with their values; \<^verbatim>\<open>os.getenv\<close> gives \<^verbatim>\<open>None\<close> for a name that is absent.\<close>

type_synonym environ = "(string \<times> string) list"

definition getenv :: "environ \<Rightarrow> string \<Rightarrow> string option" where
  "getenv env k = map_of env k"

record config =
  SECRET_KEY :: "string option"
  SQLALCHEMY_DATABASE_URI :: "string option"

text \<open>What the database library does with a URI is outside \<^verbatim>\<open>main.py\<close> and is a
  parameter: \<open>engine_error uri\<close> is the exception, if any, with which the engine for
  \<open>uri\<close> cannot be made (a URI that does not parse, an unknown dialect or driver), and
  \<open>create_all_error uri\<close> is the exception, if any, with which the tables cannot be
  created in the database behind \<open>uri\<close>.\<close>

record platform =
  engine_error :: "string \<Rightarrow> exn option"
  create_all_error :: "string \<Rightarrow> exn option"

text \<open>\<^verbatim>\<open>db.init_app(app)\<close> (line 34) of Flask-SQLAlchemy 3 (the version that takes
  \<^verbatim>\<open>model_class=Base\<close> with a \<^verbatim>\<open>DeclarativeBase\<close>): with no database URI and no binds
  configured it raises \<^verbatim>\<open>RuntimeError\<close>; otherwise it makes the engine for the URI.\<close>

definition init_app :: "platform \<Rightarrow> config \<Rightarrow> exn + unit" where
  "init_app pf c =
     (case SQLALCHEMY_DATABASE_URI c of
        None \<Rightarrow> Inl RuntimeError
      | Some uri \<Rightarrow> (case engine_error pf uri of Some e \<Rightarrow> Inl e | None \<Rightarrow> Inr ()))"

text \<open>\<^verbatim>\<open>db.create_all()\<close> (lines 84 and 85), run when the module is loaded.\<close>

definition create_all :: "platform \<Rightarrow> config \<Rightarrow> exn + unit" where
  "create_all pf c =
     (case SQLALCHEMY_DATABASE_URI c of
        None \<Rightarrow> Inl RuntimeError
      | Some uri \<Rightarrow> (case create_all_error pf uri of Some e \<Rightarrow> Inl e | None \<Rightarrow> Inr ()))"

text \<open>The module's top level, lines 16 to 85: both settings are copied from the
  environment as they are, with no check of the application's own; the other
  constructors (\<^verbatim>\<open>Flask\<close>, \<^verbatim>\<open>CKEditor\<close>, \<^verbatim>\<open>Bootstrap5\<close>, \<^verbatim>\<open>LoginManager\<close>) read
  neither. An exception of \<^verbatim>\<open>init_app\<close> or \<^verbatim>\<open>create_all\<close> ends the start.\<close>

definition startup :: "platform \<Rightarrow> environ \<Rightarrow> exn + config" where
  "startup pf env =
     (let c = \<lparr>SECRET_KEY = getenv env ''SECRET_KEY'',
               SQLALCHEMY_DATABASE_URI = getenv env ''DATABASE_URL''\<rparr>
      in case init_app pf c of
           Inl e \<Rightarrow> Inl e
         | Inr u \<Rightarrow> (case create_all pf c of Inl e \<Rightarrow> Inl e | Inr v \<Rightarrow> Inr c))"

subsection \<open>Sample data\<close>

text \<open>A hashing primitive for concrete runs: the hash is the reversed password.\<close>

definition sample_ext :: ext where
  "sample_ext =
     \<lparr>generate_password_hash = rev,
      check_password_hash = (\<lambda>pwhash pw. pwhash = rev pw),
      today = ''April 05, 2024''\<rparr>"

definition alice :: user where
  "alice = \<lparr>u_id = 1, username = ''alice'', email = ''a@x.com'', password = ''1wp''\<rparr>"

definition bob :: user where
  "bob = \<lparr>u_id = 2, username = ''bob'', email = ''b@x.com'', password = ''2wp''\<rparr>"

definition hello :: blog_post where
  "hello = \<lparr>p_id = 1, user_id = 2, title = ''Hello'', subtitle = ''first'',
            date = ''April 05, 2024'', body = ''text'', img_url = ''h.png''\<rparr>"

definition sample_db :: db where
  "sample_db = \<lparr>users = [alice, bob], posts = [hello]\<rparr>"

text \<open>A platform on which the SQLite file of the source can be opened and filled, and
  nothing else.\<close>

definition sample_platform :: platform where
  "sample_platform =
     \<lparr>engine_error = (\<lambda>uri. if uri = ''sqlite:///post.db'' then None else Some ArgumentError),
      create_all_error = (\<lambda>uri. None)\<rparr>"

definition sample_form :: post_form where
  "sample_form = \<lparr>f_title = ''Hello again'', f_subtitle = ''second'',
                  f_body = ''more text'', f_img_url = ''g.png''\<rparr>"

section \<open>Properties\<close>

subsection \<open>Lookups and the current user\<close>

lemma find_mem: "find P xs = Some x \<Longrightarrow> x \<in> set xs \<and> P x"
  by (induction xs) (auto split: if_splits)

lemma find_none: "(find P xs = None) = (\<forall>x \<in> set xs. \<not> P x)"
  by (induction xs) auto

lemma filter_empty_iff: "(filter P xs = []) = (\<forall>x \<in> set xs. \<not> P x)"
  by (induction xs) auto

lemma filter_distinct_key:
  "distinct (map k xs) \<Longrightarrow> u \<in> set xs \<Longrightarrow> filter (\<lambda>v. k v = k u) xs = [u]"
proof (induction xs)
  case Nil
  then show ?case by simp
next
  case (Cons a xs)
  show ?case
  proof (cases "a = u")
    case True
    have "k u \<notin> k ` set xs" using Cons.prems True by simp
    then have "\<forall>v \<in> set xs. k v \<noteq> k u" by (metis imageI)
    then have "filter (\<lambda>v. k v = k u) xs = []" by (simp add: filter_empty_iff)
    then show ?thesis using True by simp
  next
    case False
    then have m: "u \<in> set xs" using Cons.prems by simp
    then have "k a \<noteq> k u" using Cons.prems by auto
    then show ?thesis using Cons.IH Cons.prems m by simp
  qed
qed

lemma find_map_same:
  "\<forall>q. k (g q) = k q \<Longrightarrow>
   find (\<lambda>p. k p = i) (map (\<lambda>q. if k q = i then g q else q) ps) =
     map_option g (find (\<lambda>p. k p = i) ps)"
  by (induction ps) auto

lemma find_map_other:
  "\<forall>q. k (g q) = k q \<Longrightarrow> j \<noteq> i \<Longrightarrow>
   find (\<lambda>p. k p = j) (map (\<lambda>q. if k q = i then g q else q) ps) =
     find (\<lambda>p. k p = j) ps"
  by (induction ps) auto

lemma get_or_404_found:
  "get_or_404 d i = Inr p \<Longrightarrow> find (\<lambda>q. p_id q = i) (posts d) = Some p"
  by (simp add: get_or_404_def split: option.splits if_splits)

lemma get_or_404_range: "get_or_404 d i = Inr p \<Longrightarrow> sqlite_integer i"
  by (simp add: get_or_404_def split: if_splits)

lemma current_user_cases:
  "current_user d s = AnonymousUser \<or> (\<exists>u \<in> set (users d). current_user d s = UserObj u)"
  by (auto simp: current_user_def load_user_def split: option.splits dest: find_mem)

lemma admin_or_author_found:
  "get_or_404 d post_id = Inr post \<Longrightarrow>
   admin_or_author f d s post_id args =
     (if attr_id (current_user d s) = Some (user_id post) then f d s post_id args
      else respond d s (Abort 403))"
  using current_user_cases [of d s] by (auto simp: admin_or_author_def)

lemma edit_post_success:
  assumes "get_or_404 d post_id = Inr post"
    and "response (edit_post d s post_id (valid, form)) = Redirect ''show_post'' (Some post_id)"
  shows "\<exists>u. current_user d s = UserObj u
           \<and> new_db (edit_post d s post_id (valid, form)) =
               d\<lparr>posts := map (\<lambda>q. if p_id q = post_id
                                   then q\<lparr>title := f_title form, subtitle := f_subtitle form,
                                          img_url := f_img_url form, user_id := u_id u,
                                          body := f_body form\<rparr>
                                   else q) (posts d)\<rparr>"
  using assms
  by (auto simp: edit_post_def respond_def split: option.splits pyobj.splits if_splits)

subsection \<open>The access gate\<close>

text \<open>Claim C1. For a stored post, the routes \<^verbatim>\<open>/edit-post/<id>\<close> and
  \<^verbatim>\<open>/delete/<id>\<close> run their view exactly when the caller is authenticated and the
  caller's id is the post's \<^verbatim>\<open>user_id\<close>; every other caller, authenticated or not, gets
  \<^verbatim>\<open>abort(403)\<close> and nothing changes. The comparison \<^verbatim>\<open>current_user != 1\<close> is true for
  every caller, so it admits no one.\<close>

theorem access_gate_owner_only:
  assumes "get_or_404 d post_id = Inr post"
  shows "dispatch x d s (Edit_post post_id valid form) =
           (if is_authenticated (current_user d s)
               \<and> attr_id (current_user d s) = Some (user_id post)
            then edit_post d s post_id (valid, form)
            else \<lparr>new_db = d, new_session = s, flashes = [], response = Abort 403\<rparr>)
       \<and> dispatch x d s (Delete post_id) =
           (if is_authenticated (current_user d s)
               \<and> attr_id (current_user d s) = Some (user_id post)
            then delete_post d s post_id ()
            else \<lparr>new_db = d, new_session = s, flashes = [], response = Abort 403\<rparr>)
       \<and> py_ne (current_user d s) (IntObj 1)"
proof -
  have ne: "py_ne (current_user d s) (IntObj 1)"
    using current_user_cases [of d s] by auto
  have auth: "attr_id (current_user d s) = Some (user_id post) \<Longrightarrow>
              is_authenticated (current_user d s)"
    by (cases "current_user d s") auto
  show ?thesis
    using assms ne auth by (auto simp: admin_or_author_found respond_def)
qed

text \<open>On the sample data the post belongs to the user with id 2: the user with id 1 and the
  anonymous caller are refused, the owner reaches \<^verbatim>\<open>delete_post\<close>.\<close>

theorem access_gate_owner_only_witness:
  "get_or_404 sample_db 1 = Inr hello
   \<and> response (dispatch sample_ext sample_db (Some 1) (Delete 1)) = Abort 403
   \<and> response (dispatch sample_ext sample_db None (Delete 1)) = Abort 403
   \<and> dispatch sample_ext sample_db (Some 2) (Delete 1) = delete_post sample_db (Some 2) 1 ()"
proof -
  have h: "get_or_404 sample_db 1 = Inr hello"
    by (simp add: get_or_404_def sqlite_integer_def sample_db_def hello_def)
  have a: "current_user sample_db (Some 1) = UserObj alice"
    by (simp add: current_user_def load_user_def sample_db_def alice_def)
  have b: "current_user sample_db (Some 2) = UserObj bob"
    by (simp add: current_user_def load_user_def sample_db_def alice_def bob_def)
  have n: "current_user sample_db None = AnonymousUser"
    by (simp add: current_user_def)
  show ?thesis
    using h access_gate_owner_only [OF h, of sample_ext "Some 1"]
      access_gate_owner_only [OF h, of sample_ext "Some 2"]
      access_gate_owner_only [OF h, of sample_ext None]
    by (simp add: a b n alice_def bob_def hello_def)
qed

subsection \<open>Creating a post without a session\<close>

text \<open>Claim C2. An unauthenticated caller of \<^verbatim>\<open>/new-post\<close> should be turned away by
  \<^verbatim>\<open>login_required\<close> before the form is looked at. The registered view is the bare
  \<^verbatim>\<open>add_new_post\<close>: without a session, a form that does not validate is rendered again
  and a form that validates reaches the construction of the post, which raises; the
  response depends on the content, and neither is the redirect to the login view that
  \<^verbatim>\<open>login_required\<close> gives. No post is written in either case.\<close>

theorem new_post_not_gated:
  "dispatch sample_ext sample_db None (New_post False sample_form) =
     \<lparr>new_db = sample_db, new_session = None, flashes = [],
      response = Render ''make-post.html''\<rparr>
   \<and> dispatch sample_ext sample_db None (New_post True sample_form) =
     \<lparr>new_db = sample_db, new_session = None, flashes = [],
      response = Unhandled AttributeError\<rparr>
   \<and> login_required (add_new_post sample_ext) sample_db None (True, sample_form) =
     \<lparr>new_db = sample_db, new_session = None,
      flashes = [(''Please log in to access this page.'', ''message'')],
      response = Redirect ''login'' None\<rparr>"
  by (simp add: add_new_post_def login_required_def current_user_def respond_def flash_def)

subsection \<open>Registration and login\<close>

text \<open>Emails stay unique along every run: \<^verbatim>\<open>register\<close> adds a user only when
  the query for the email is empty, and no other view writes to the users.\<close>

lemma scalar_none: "(scalar xs = None) = (xs = [])"
  by (cases xs) auto

lemma distinct_emails_dispatch:
  assumes "distinct (map email (users d))"
  shows "distinct (map email (users (new_db (dispatch x d s rq))))"
proof (cases rq)
  case (Login valid e pw)
  then show ?thesis using assms
    by (auto simp: login_def respond_def flash_def split: sum.splits option.splits)
next
  case (Register valid name e pw)
  show ?thesis
  proof (cases "valid \<and> scalar (select_user_by_email d e) = None")
    case True
    then have "\<forall>u \<in> set (users d). email u \<noteq> e"
      by (simp add: scalar_none select_user_by_email_def filter_empty_iff)
    then have "e \<notin> email ` set (users d)" by auto
    then show ?thesis using True Register assms
      by (simp add: register_def respond_def Let_def)
  next
    case False
    then show ?thesis using Register assms
      by (auto simp: register_def respond_def flash_def split: option.splits)
  qed
next
  case (New_post valid form)
  then show ?thesis using assms
    by (auto simp: add_new_post_def respond_def Let_def split: pyobj.splits)
next
  case (Edit_post post_id valid form)
  then show ?thesis using assms
    by (auto simp: admin_or_author_def edit_post_def respond_def
             split: sum.splits option.splits pyobj.splits)
next
  case (Delete post_id)
  then show ?thesis using assms
    by (auto simp: admin_or_author_def delete_post_def respond_def split: sum.splits)
qed (use assms in \<open>auto simp: get_all_posts_def logout_def show_post_def about_def
       contact_def respond_def split: sum.splits\<close>)

lemma distinct_emails_run:
  "distinct (map email (users d)) \<Longrightarrow> distinct (map email (users (run d rqs)))"
proof (induction rqs arbitrary: d)
  case Nil
  then show ?case by simp
next
  case (Cons a rqs)
  obtain x s rq where a: "a = (x, s, rq)" by (cases a) auto
  show ?case using Cons a by (simp add: distinct_emails_dispatch)
qed

text \<open>Claim C3. When a stored user has the email \<^verbatim>\<open>e\<close>, a submitted registration with
  \<^verbatim>\<open>e\<close> flashes \<^verbatim>\<open>Already Logged in\<close>, redirects to the login view, and leaves the
  database (so the stored users) and the session as they were.\<close>

theorem register_duplicate_email:
  assumes "\<exists>u \<in> set (users d). email u = e"
  shows "dispatch x d s (Register True name e pw) =
           \<lparr>new_db = d, new_session = s, flashes = [(''Already Logged in'', ''danger'')],
            response = Redirect ''login'' None\<rparr>
         \<and> users (new_db (dispatch x d s (Register True name e pw))) = users d"
proof -
  have "select_user_by_email d e \<noteq> []"
    using assms by (simp add: select_user_by_email_def filter_empty_iff)
  then obtain v vs where "select_user_by_email d e = v # vs"
    by (cases "select_user_by_email d e") auto
  then show ?thesis by (simp add: register_def flash_def respond_def)
qed

theorem register_duplicate_email_witness:
  "(\<exists>u \<in> set (users sample_db). email u = ''a@x.com'')
   \<and> response (dispatch sample_ext sample_db None (Register True ''eve'' ''a@x.com'' ''pw9''))
       = Redirect ''login'' None
   \<and> users (new_db (dispatch sample_ext sample_db None
        (Register True ''eve'' ''a@x.com'' ''pw9''))) = [alice, bob]"
proof -
  have h: "\<exists>u \<in> set (users sample_db). email u = ''a@x.com''"
    by (simp add: sample_db_def alice_def)
  show ?thesis
    using h register_duplicate_email [OF h, of sample_ext None "''eve''" "''pw9''"]
    by (simp add: sample_db_def)
qed

text \<open>Claim C4. For a stored user (emails being unique, line 44) and a supplied password
  that \<^verbatim>\<open>check_password_hash\<close> does not accept for the stored hash, a submitted login
  flashes \<^verbatim>\<open>Incorrect Password!\<close>, renders the login form again and leaves the session
  as it was. The password reaches the outcome only through
  \<^verbatim>\<open>check_password_hash(user.password, password)\<close>: two passwords with the same verdict
  give the same result, whatever the strings are.\<close>

theorem login_wrong_password:
  assumes "distinct (map email (users d))" and "u \<in> set (users d)"
  shows "(\<not> check_password_hash x (password u) pw \<longrightarrow>
            dispatch x d s (Login True (email u) pw) =
              \<lparr>new_db = d, new_session = s, flashes = [(''Incorrect Password!'', ''danger'')],
               response = Render ''login.html''\<rparr>)
         \<and> (check_password_hash x (password u) pw = check_password_hash x (password u) pw' \<longrightarrow>
            dispatch x d s (Login True (email u) pw) = dispatch x d s (Login True (email u) pw'))"
proof -
  have "select_user_by_email d (email u) = [u]"
    using assms by (simp add: select_user_by_email_def filter_distinct_key)
  then show ?thesis by (simp add: login_def flash_def respond_def)
qed

text \<open>On the sample data the supplied password is, character for character, the stored
  hash of the user; the check refuses it and the login fails.\<close>

theorem login_wrong_password_witness:
  "distinct (map email (users sample_db)) \<and> alice \<in> set (users sample_db)
   \<and> \<not> check_password_hash sample_ext (password alice) ''1wp''
   \<and> dispatch sample_ext sample_db None (Login True ''a@x.com'' ''1wp'') =
       \<lparr>new_db = sample_db, new_session = None,
        flashes = [(''Incorrect Password!'', ''danger'')], response = Render ''login.html''\<rparr>"
proof -
  have h1: "distinct (map email (users sample_db))"
    by (simp add: sample_db_def alice_def bob_def)
  have h2: "alice \<in> set (users sample_db)"
    by (simp add: sample_db_def)
  have h3: "\<not> check_password_hash sample_ext (password alice) ''1wp''"
    by (simp add: sample_ext_def alice_def)
  have e: "email alice = ''a@x.com''" by (simp add: alice_def)
  show ?thesis
    using h1 h2 h3 login_wrong_password [OF h1 h2, of sample_ext "''1wp''" None]
    by (simp add: e)
qed

text \<open>Claim C7. When no stored user has the email, a submitted login flashes
  \<^verbatim>\<open>Email doesn't exist !\<close>, redirects to the registration view and leaves the session
  as it was.\<close>

theorem login_unknown_email:
  assumes "\<forall>u \<in> set (users d). email u \<noteq> e"
  shows "dispatch x d s (Login True e pw) =
           \<lparr>new_db = d, new_session = s, flashes = [(''Email doesn't exist !'', ''danger'')],
            response = Redirect ''register'' None\<rparr>"
proof -
  have "select_user_by_email d e = []"
    using assms by (simp add: select_user_by_email_def filter_empty_iff)
  then show ?thesis by (simp add: login_def flash_def respond_def)
qed

theorem login_unknown_email_witness:
  "map email (users sample_db) = [''a@x.com'', ''b@x.com'']
   \<and> dispatch sample_ext sample_db None (Login True ''c@x.com'' ''pw1'') =
       \<lparr>new_db = sample_db, new_session = None,
        flashes = [(''Email doesn't exist !'', ''danger'')],
        response = Redirect ''register'' None\<rparr>"
proof -
  have h: "\<forall>u \<in> set (users sample_db). email u \<noteq> ''c@x.com''"
    by (simp add: sample_db_def alice_def bob_def)
  have m: "map email (users sample_db) = [''a@x.com'', ''b@x.com'']"
    by (simp add: sample_db_def alice_def bob_def)
  show ?thesis
    using m login_unknown_email [OF h, of sample_ext None "''pw1''"] by simp
qed

subsection \<open>Posts\<close>

text \<open>Claim C5. When an edit of a stored post succeeds (the response is the redirect to
  \<^verbatim>\<open>show_post\<close>), be it the view \<^verbatim>\<open>edit_post\<close> itself or the route with its gate, the
  caller is a stored user, and the post now has the submitted title, subtitle, image
  reference and body, the caller's id as \<^verbatim>\<open>user_id\<close>, and its \<^verbatim>\<open>id\<close> and
  \<^verbatim>\<open>date\<close> as before; every other post, the users and the session are unchanged.\<close>

theorem edit_post_overwrites:
  assumes "get_or_404 d post_id = Inr post"
    and "r = edit_post d s post_id (valid, form)
         \<or> r = dispatch x d s (Edit_post post_id valid form)"
    and "response r = Redirect ''show_post'' (Some post_id)"
  shows "\<exists>u. current_user d s = UserObj u
           \<and> get_or_404 (new_db r) post_id =
               Inr \<lparr>p_id = p_id post, user_id = u_id u, title = f_title form,
                    subtitle = f_subtitle form, date = date post, body = f_body form,
                    img_url = f_img_url form\<rparr>
           \<and> (\<forall>i. i \<noteq> post_id \<longrightarrow> get_or_404 (new_db r) i = get_or_404 d i)
           \<and> users (new_db r) = users d
           \<and> new_session r = s"
proof -
  have r: "r = edit_post d s post_id (valid, form)"
  proof (rule disjE [OF assms(2)])
    assume "r = edit_post d s post_id (valid, form)"
    then show ?thesis .
  next
    assume a: "r = dispatch x d s (Edit_post post_id valid form)"
    show ?thesis
    proof (cases "attr_id (current_user d s) = Some (user_id post)")
      case True
      then show ?thesis using a assms(1) by (simp add: admin_or_author_found)
    next
      case False
      then have "response r = Abort 403"
        using a assms(1) by (simp add: admin_or_author_found respond_def)
      then show ?thesis using assms(3) by simp
    qed
  qed
  from edit_post_success [OF assms(1)] assms(3) r
  obtain u where u: "current_user d s = UserObj u"
    and nd: "new_db r =
               d\<lparr>posts := map (\<lambda>q. if p_id q = post_id
                                   then q\<lparr>title := f_title form, subtitle := f_subtitle form,
                                          img_url := f_img_url form, user_id := u_id u,
                                          body := f_body form\<rparr>
                                   else q) (posts d)\<rparr>"
    by blast
  have f: "find (\<lambda>q. p_id q = post_id) (posts d) = Some post"
    using assms(1) by (rule get_or_404_found)
  have same: "get_or_404 (new_db r) post_id =
               Inr \<lparr>p_id = p_id post, user_id = u_id u, title = f_title form,
                    subtitle = f_subtitle form, date = date post, body = f_body form,
                    img_url = f_img_url form\<rparr>"
    using get_or_404_range [OF assms(1)] by (simp add: nd get_or_404_def find_map_same f)
  have other: "\<forall>i. i \<noteq> post_id \<longrightarrow> get_or_404 (new_db r) i = get_or_404 d i"
    by (simp add: nd get_or_404_def find_map_other)
  have us: "users (new_db r) = users d" by (simp add: nd)
  have ss: "new_session r = s"
    using r assms(3)
    by (auto simp: edit_post_def respond_def split: sum.splits option.splits pyobj.splits if_splits)
  show ?thesis using u same other us ss by blast
qed

text \<open>On the sample data: the owner edits through the route; and the view itself, called
  for a user who is not the owner, hands the post over to that user.\<close>

theorem edit_post_overwrites_witness:
  "get_or_404 sample_db 1 = Inr hello
   \<and> response (dispatch sample_ext sample_db (Some 2) (Edit_post 1 True sample_form)) =
       Redirect ''show_post'' (Some 1)
   \<and> get_or_404 (new_db (dispatch sample_ext sample_db (Some 2) (Edit_post 1 True sample_form))) 1 =
       Inr \<lparr>p_id = 1, user_id = 2, title = ''Hello again'', subtitle = ''second'',
            date = ''April 05, 2024'', body = ''more text'', img_url = ''g.png''\<rparr>
   \<and> response (edit_post sample_db (Some 1) 1 (True, sample_form)) =
       Redirect ''show_post'' (Some 1)
   \<and> get_or_404 (new_db (edit_post sample_db (Some 1) 1 (True, sample_form))) 1 =
       Inr \<lparr>p_id = 1, user_id = 1, title = ''Hello again'', subtitle = ''second'',
            date = ''April 05, 2024'', body = ''more text'', img_url = ''g.png''\<rparr>"
proof -
  have h1: "get_or_404 sample_db 1 = Inr hello"
    by (simp add: get_or_404_def sqlite_integer_def sample_db_def hello_def)
  have a: "current_user sample_db (Some 1) = UserObj alice"
    by (simp add: current_user_def load_user_def sample_db_def alice_def)
  have b: "current_user sample_db (Some 2) = UserObj bob"
    by (simp add: current_user_def load_user_def sample_db_def alice_def bob_def)
  have au: "author sample_db hello = Some bob"
    by (simp add: author_def sample_db_def alice_def bob_def hello_def)
  have t: "\<not> (\<exists>q \<in> set (posts sample_db). p_id q \<noteq> 1 \<and> title q = f_title sample_form)"
    by (simp add: sample_db_def hello_def)
  have ea: "response (edit_post sample_db (Some 1) 1 (True, sample_form)) =
            Redirect ''show_post'' (Some 1)"
    using t by (simp add: edit_post_def h1 au a respond_def)
  have eb: "response (edit_post sample_db (Some 2) 1 (True, sample_form)) =
            Redirect ''show_post'' (Some 1)"
    using t by (simp add: edit_post_def h1 au b respond_def)
  have h3: "response (dispatch sample_ext sample_db (Some 2) (Edit_post 1 True sample_form)) =
            Redirect ''show_post'' (Some 1)"
    using eb by (simp add: admin_or_author_found [OF h1] b bob_def hello_def)
  show ?thesis
    using h1 h3 ea
      edit_post_overwrites [OF h1 disjI2 [OF refl] h3]
      edit_post_overwrites [OF h1 disjI1 [OF refl] ea]
    by (auto simp: a b alice_def bob_def hello_def sample_form_def)
qed

text \<open>Claim C6, as stated, fails: a post id of \<open>2 ^ 63\<close>, which no stored post has, is
  outside the store's integers; the query of \<^verbatim>\<open>get_or_404\<close> raises and the three routes
  answer with the unhandled \<^verbatim>\<open>OverflowError\<close>, not with \<^verbatim>\<open>abort(404)\<close>.\<close>

theorem missing_post_overflow:
  "map p_id (posts sample_db) = [1]
   \<and> dispatch sample_ext sample_db None (Show_post 9223372036854775808) =
       \<lparr>new_db = sample_db, new_session = None, flashes = [],
        response = Unhandled OverflowError\<rparr>
   \<and> dispatch sample_ext sample_db None (Edit_post 9223372036854775808 True sample_form) =
       \<lparr>new_db = sample_db, new_session = None, flashes = [],
        response = Unhandled OverflowError\<rparr>
   \<and> dispatch sample_ext sample_db None (Delete 9223372036854775808) =
       \<lparr>new_db = sample_db, new_session = None, flashes = [],
        response = Unhandled OverflowError\<rparr>"
proof -
  have m: "map p_id (posts sample_db) = [1]"
    by (simp add: sample_db_def hello_def)
  have g: "get_or_404 sample_db 9223372036854775808 = Inl (Unhandled OverflowError)"
    by (simp add: get_or_404_def sqlite_integer_def)
  show ?thesis
    using m g by (simp add: show_post_def admin_or_author_def respond_def)
qed

text \<open>Claim C6, amended. For a post id within the store's integers that no stored post
  has, the routes \<^verbatim>\<open>/post/<id>\<close>, \<^verbatim>\<open>/edit-post/<id>\<close> and \<^verbatim>\<open>/delete/<id>\<close> answer
  \<^verbatim>\<open>abort(404)\<close>, whoever the caller is, authenticated or not: the gate fetches the post
  before it looks at the caller. Nothing changes.\<close>

theorem missing_post_not_found:
  assumes "\<forall>p \<in> set (posts d). p_id p \<noteq> post_id"
    and "sqlite_integer post_id"
  shows "dispatch x d s (Show_post post_id) =
           \<lparr>new_db = d, new_session = s, flashes = [], response = Abort 404\<rparr>
         \<and> dispatch x d s (Edit_post post_id valid form) =
           \<lparr>new_db = d, new_session = s, flashes = [], response = Abort 404\<rparr>
         \<and> dispatch x d s (Delete post_id) =
           \<lparr>new_db = d, new_session = s, flashes = [], response = Abort 404\<rparr>"
proof -
  have "find (\<lambda>p. p_id p = post_id) (posts d) = None"
    using assms(1) by (simp add: find_none)
  then have "get_or_404 d post_id = Inl (Abort 404)"
    using assms(2) by (simp add: get_or_404_def)
  then show ?thesis
    by (simp add: show_post_def admin_or_author_def respond_def)
qed

text \<open>On the sample data, for the anonymous caller and for the largest integer of the
  store.\<close>

theorem missing_post_not_found_witness:
  "map p_id (posts sample_db) = [1]
   \<and> sqlite_integer 7 \<and> sqlite_integer 9223372036854775807
   \<and> response (dispatch sample_ext sample_db None (Show_post 7)) = Abort 404
   \<and> response (dispatch sample_ext sample_db None (Edit_post 7 True sample_form)) = Abort 404
   \<and> response (dispatch sample_ext sample_db None (Delete 7)) = Abort 404
   \<and> response (dispatch sample_ext sample_db None (Delete 9223372036854775807)) = Abort 404"
proof -
  have h: "\<forall>p \<in> set (posts sample_db). p_id p \<noteq> 7"
    by (simp add: sample_db_def hello_def)
  have h': "\<forall>p \<in> set (posts sample_db). p_id p \<noteq> 9223372036854775807"
    by (simp add: sample_db_def hello_def)
  have m: "map p_id (posts sample_db) = [1]"
    by (simp add: sample_db_def hello_def)
  have r: "sqlite_integer 7" by (simp add: sqlite_integer_def)
  have r': "sqlite_integer 9223372036854775807" by (simp add: sqlite_integer_def)
  show ?thesis
    using m r r' missing_post_not_found [OF h r, of sample_ext None True sample_form]
      missing_post_not_found [OF h' r', of sample_ext None True sample_form]
    by simp
qed

text \<open>Claim C8. When a stored post has the submitted title, a submitted creation by an
  authenticated caller ends in the integrity error of the commit (the unique constraint
  of line 60), and the database is as it was.\<close>

theorem add_new_post_duplicate_title:
  assumes "is_authenticated (current_user d s)"
    and "\<exists>p \<in> set (posts d). title p = f_title form"
  shows "dispatch x d s (New_post True form) =
           \<lparr>new_db = d, new_session = s, flashes = [], response = Unhandled IntegrityError\<rparr>"
proof -
  obtain u where "current_user d s = UserObj u"
    using assms(1) by (cases "current_user d s") auto
  then show ?thesis using assms(2) by (simp add: add_new_post_def respond_def)
qed

theorem add_new_post_duplicate_title_witness:
  "is_authenticated (current_user sample_db (Some 1))
   \<and> (\<exists>p \<in> set (posts sample_db). title p = f_title (sample_form\<lparr>f_title := ''Hello''\<rparr>))
   \<and> dispatch sample_ext sample_db (Some 1) (New_post True (sample_form\<lparr>f_title := ''Hello''\<rparr>)) =
       \<lparr>new_db = sample_db, new_session = Some 1, flashes = [],
        response = Unhandled IntegrityError\<rparr>"
proof -
  have h1: "is_authenticated (current_user sample_db (Some 1))"
    by (simp add: current_user_def load_user_def sample_db_def alice_def)
  have h2: "\<exists>p \<in> set (posts sample_db). title p = f_title (sample_form\<lparr>f_title := ''Hello''\<rparr>)"
    by (simp add: sample_db_def hello_def)
  show ?thesis
    using h1 h2 add_new_post_duplicate_title [OF h1 h2, of sample_ext] by simp
qed

subsection \<open>Startup\<close>

text \<open>Claim C9, as stated, fails: with the database URL present and the secret key absent,
  on a platform that opens the database, the start succeeds with no secret key.\<close>

theorem startup_secret_key_absent:
  "getenv [(''DATABASE_URL'', ''sqlite:///post.db'')] ''SECRET_KEY'' = None
   \<and> startup sample_platform [(''DATABASE_URL'', ''sqlite:///post.db'')] =
       Inr \<lparr>SECRET_KEY = None, SQLALCHEMY_DATABASE_URI = Some ''sqlite:///post.db''\<rparr>"
  by (simp add: startup_def getenv_def init_app_def create_all_def sample_platform_def)

text \<open>Claim C9, amended. When the database URL is absent from the environment, the start
  fails (\<^verbatim>\<open>db.init_app\<close> raises), whatever the platform and the secret key. The secret
  key has no part in it: two environments with the same database URL both fail or both
  start; and a start that succeeds has the secret key as the environment gives it,
  \<^verbatim>\<open>None\<close> when it is absent, and a database URL that was present.\<close>

theorem startup_fails_without_database_url:
  "(getenv env ''DATABASE_URL'' = None \<longrightarrow> startup pf env = Inl RuntimeError)
   \<and> (getenv env ''DATABASE_URL'' = getenv env' ''DATABASE_URL'' \<longrightarrow>
        isl (startup pf env) = isl (startup pf env'))
   \<and> (startup pf env = Inr c \<longrightarrow>
        SECRET_KEY c = getenv env ''SECRET_KEY''
        \<and> SQLALCHEMY_DATABASE_URI c = getenv env ''DATABASE_URL''
        \<and> getenv env ''DATABASE_URL'' \<noteq> None)"
proof -
  have a: "getenv env ''DATABASE_URL'' = None \<longrightarrow> startup pf env = Inl RuntimeError"
    by (simp add: startup_def init_app_def)
  have b: "getenv env ''DATABASE_URL'' = getenv env' ''DATABASE_URL'' \<longrightarrow>
           isl (startup pf env) = isl (startup pf env')"
    by (simp add: startup_def init_app_def create_all_def split: option.splits)
  have c: "startup pf env = Inr c \<longrightarrow>
           SECRET_KEY c = getenv env ''SECRET_KEY''
           \<and> SQLALCHEMY_DATABASE_URI c = getenv env ''DATABASE_URL''
           \<and> getenv env ''DATABASE_URL'' \<noteq> None"
    by (auto simp: startup_def init_app_def create_all_def split: option.splits)
  show ?thesis using a b c by blast
qed

text \<open>With an empty environment the start fails; with the database URL alone, and with
  the database URL and a secret key, it succeeds on the sample platform.\<close>

theorem startup_fails_without_database_url_witness:
  "getenv [(''SECRET_KEY'', ''k'')] ''DATABASE_URL'' = None
   \<and> startup sample_platform [(''SECRET_KEY'', ''k'')] = Inl RuntimeError
   \<and> getenv [(''DATABASE_URL'', ''sqlite:///post.db'')] ''DATABASE_URL'' =
       getenv [(''SECRET_KEY'', ''k''), (''DATABASE_URL'', ''sqlite:///post.db'')] ''DATABASE_URL''
   \<and> isl (startup sample_platform [(''DATABASE_URL'', ''sqlite:///post.db'')]) =
       isl (startup sample_platform
              [(''SECRET_KEY'', ''k''), (''DATABASE_URL'', ''sqlite:///post.db'')])
   \<and> startup sample_platform [(''DATABASE_URL'', ''sqlite:///post.db'')] =
       Inr \<lparr>SECRET_KEY = None, SQLALCHEMY_DATABASE_URI = Some ''sqlite:///post.db''\<rparr>
   \<and> SECRET_KEY \<lparr>SECRET_KEY = None, SQLALCHEMY_DATABASE_URI = Some ''sqlite:///post.db''\<rparr> =
       getenv [(''DATABASE_URL'', ''sqlite:///post.db'')] ''SECRET_KEY''"
proof -
  have h1: "getenv [(''SECRET_KEY'', ''k'')] ''DATABASE_URL'' = None"
    by (simp add: getenv_def)
  have h2: "getenv [(''DATABASE_URL'', ''sqlite:///post.db'')] ''DATABASE_URL'' =
            getenv [(''SECRET_KEY'', ''k''), (''DATABASE_URL'', ''sqlite:///post.db'')]
              ''DATABASE_URL''"
    by (simp add: getenv_def)
  have h3: "startup sample_platform [(''DATABASE_URL'', ''sqlite:///post.db'')] =
            Inr \<lparr>SECRET_KEY = None, SQLALCHEMY_DATABASE_URI = Some ''sqlite:///post.db''\<rparr>"
    by (simp add: startup_def getenv_def init_app_def create_all_def sample_platform_def)
  show ?thesis
    using h1 h2 h3
      startup_fails_without_database_url [of "[(''SECRET_KEY'', ''k'')]" sample_platform
        "[(''SECRET_KEY'', ''k''), (''DATABASE_URL'', ''sqlite:///post.db'')]"]
      startup_fails_without_database_url [of "[(''DATABASE_URL'', ''sqlite:///post.db'')]"
        sample_platform
        "[(''SECRET_KEY'', ''k''), (''DATABASE_URL'', ''sqlite:///post.db'')]"
        "\<lparr>SECRET_KEY = None, SQLALCHEMY_DATABASE_URI = Some ''sqlite:///post.db''\<rparr>"]
    by simp
qed

subsection \<open>No orphaned posts\<close>

lemma no_orphans_dispatch:
  assumes "no_orphans d"
  shows "no_orphans (new_db (dispatch x d s rq))"
proof (cases rq)
  case (Login valid e pw)
  then show ?thesis using assms
    by (auto simp: login_def respond_def flash_def split: sum.splits option.splits)
next
  case (Register valid name e pw)
  then show ?thesis using assms
    by (auto simp: register_def respond_def flash_def no_orphans_def Let_def
             split: option.splits)
next
  case (New_post valid form)
  then show ?thesis using assms current_user_cases [of d s]
    by (auto simp: add_new_post_def respond_def no_orphans_def Let_def split: pyobj.splits)
next
  case (Edit_post post_id valid form)
  have "no_orphans (new_db (edit_post d s post_id (valid, form)))"
    using assms current_user_cases [of d s]
    by (auto simp: edit_post_def respond_def no_orphans_def
             split: sum.splits option.splits pyobj.splits)
  then show ?thesis using Edit_post assms
    by (auto simp: admin_or_author_def respond_def split: sum.splits)
next
  case (Delete post_id)
  have "no_orphans (new_db (delete_post d s post_id ()))"
    using assms
    by (auto simp: delete_post_def respond_def no_orphans_def split: sum.splits)
  then show ?thesis using Delete assms
    by (auto simp: admin_or_author_def respond_def split: sum.splits)
qed (use assms in \<open>auto simp: get_all_posts_def logout_def show_post_def about_def
       contact_def respond_def split: sum.splits\<close>)

lemma no_orphans_run: "no_orphans d \<Longrightarrow> no_orphans (run d rqs)"
proof (induction rqs arbitrary: d)
  case Nil
  then show ?case by simp
next
  case (Cons a rqs)
  obtain x s rq where a: "a = (x, s, rq)" by (cases a) auto
  show ?case using Cons a by (simp add: no_orphans_dispatch)
qed

lemma no_orphans_delete_user:
  "no_orphans d \<Longrightarrow> no_orphans (delete_user d i)"
  unfolding no_orphans_def delete_user_def by fastforce

text \<open>Claim C10. Every database that a run of requests produces from the empty one has no
  orphaned post; every request keeps it so; and the removal of a user under the declared
  cascade keeps it so, leaving neither the user nor a post of that user.\<close>

theorem no_orphaned_posts:
  "no_orphans (run empty_db rqs)
   \<and> (no_orphans d \<longrightarrow> no_orphans (new_db (dispatch x d s rq)))
   \<and> (no_orphans d \<longrightarrow>
        no_orphans (delete_user d i)
        \<and> (\<forall>u \<in> set (users (delete_user d i)). u_id u \<noteq> i)
        \<and> (\<forall>p \<in> set (posts (delete_user d i)). user_id p \<noteq> i))"
proof -
  have "no_orphans empty_db" by (simp add: no_orphans_def empty_db_def)
  then have "no_orphans (run empty_db rqs)" by (rule no_orphans_run)
  then show ?thesis
    by (auto simp: no_orphans_dispatch no_orphans_delete_user) (auto simp: delete_user_def)
qed

theorem no_orphaned_posts_witness:
  "no_orphans sample_db
   \<and> no_orphans (new_db (dispatch sample_ext sample_db (Some 1) (New_post True sample_form)))
   \<and> length (posts (new_db (dispatch sample_ext sample_db (Some 1) (New_post True sample_form)))) = 2
   \<and> no_orphans (delete_user sample_db 2)
   \<and> delete_user sample_db 2 = \<lparr>users = [alice], posts = []\<rparr>
   \<and> no_orphans (run empty_db
        [(sample_ext, None, Register True ''alice'' ''a@x.com'' ''pw1''),
         (sample_ext, Some 1, New_post True sample_form)])"
proof -
  have h: "no_orphans sample_db"
    by (simp add: no_orphans_def sample_db_def alice_def bob_def hello_def)
  have a: "current_user sample_db (Some 1) = UserObj alice"
    by (simp add: current_user_def load_user_def sample_db_def alice_def)
  have t: "\<not> (\<exists>p \<in> set (posts sample_db). title p = f_title sample_form)"
    by (simp add: sample_db_def hello_def sample_form_def)
  have n: "length (posts (new_db (dispatch sample_ext sample_db (Some 1)
             (New_post True sample_form)))) = 2"
    using t by (simp add: add_new_post_def a respond_def Let_def) (simp add: sample_db_def)
  have del: "delete_user sample_db 2 = \<lparr>users = [alice], posts = []\<rparr>"
    by (simp add: delete_user_def sample_db_def alice_def bob_def hello_def)
  show ?thesis
    using h n del
      no_orphaned_posts [of "[(sample_ext, None, Register True ''alice'' ''a@x.com'' ''pw1''),
         (sample_ext, Some 1, New_post True sample_form)]" sample_db sample_ext "Some 1"
         "New_post True sample_form" 2]
    by simp
qed

end
